theory Spec2Isabelle
  imports Complex_Main
begin

section \<open>Byte strings as the resolver uses them\<close>

text \<open>
  The resolver works on Python \<^verbatim>\<open>bytes\<close>. A byte string is a \<^typ>\<open>string\<close> here,
  and each Python method the resolver calls is an executable function of the same
  name: \<^verbatim>\<open>startswith\<close>, \<^verbatim>\<open>endswith\<close>, the substring test \<^verbatim>\<open>in\<close>,
  \<^verbatim>\<open>count\<close>, \<^verbatim>\<open>split\<close> and \<^verbatim>\<open>join\<close> with a one-byte separator.
\<close>

type_synonym bytes = string

definition startswith :: "bytes \<Rightarrow> bytes \<Rightarrow> bool" where
  "startswith s p = (take (length p) s = p)"

definition endswith :: "bytes \<Rightarrow> bytes \<Rightarrow> bool" where
  "endswith s p = (length p \<le> length s \<and> drop (length s - length p) s = p)"

text \<open>\<^verbatim>\<open>sub in s\<close>: \<open>sub\<close> occurs in \<open>s\<close> as a contiguous run of bytes.\<close>

fun contains :: "bytes \<Rightarrow> bytes \<Rightarrow> bool" where
  "contains [] sub = (sub = [])"
| "contains (c # cs) sub = (startswith (c # cs) sub \<or> contains cs sub)"

text \<open>\<^verbatim>\<open>s.count(b".")\<close> for a one-byte argument.\<close>

definition count_byte :: "bytes \<Rightarrow> char \<Rightarrow> nat" where
  "count_byte s c = length (filter (\<lambda>x. x = c) s)"

text \<open>
  \<^verbatim>\<open>s.split(sep)\<close> for a one-byte separator: one more part than there are
  separators, empty parts included, so the result is never the empty list
  (\<^verbatim>\<open>b"".split(b".") == [b""]\<close>). A byte that is no separator joins the
  first part of the rest.
\<close>

fun split_byte :: "char \<Rightarrow> bytes \<Rightarrow> bytes list" where
  "split_byte sep [] = [[]]"
| "split_byte sep (c # cs) =
     (if c = sep then [] # split_byte sep cs
      else (case split_byte sep cs of
              [] \<Rightarrow> [[c]]
            | p # ps \<Rightarrow> (c # p) # ps))"

text \<open>\<^verbatim>\<open>sep.join(parts)\<close>; the join of no parts is the empty byte string.\<close>

fun join_bytes :: "bytes \<Rightarrow> bytes list \<Rightarrow> bytes" where
  "join_bytes sep [] = []"
| "join_bytes sep [p] = p"
| "join_bytes sep (p # q # ps) = p @ sep @ join_bytes sep (q # ps)"

text \<open>
  The two slices of \<^verbatim>\<open>_strip_search_suffix\<close>. \<^verbatim>\<open>xs[-n:]\<close> is the last \<open>n\<close>
  elements, the whole list when \<open>n\<close> is 0 or exceeds the length; \<^verbatim>\<open>xs[:-n]\<close> is
  the list without its last \<open>n\<close> elements, and empty when \<open>n\<close> is 0 or exceeds the
  length.
\<close>

definition slice_last :: "nat \<Rightarrow> 'a list \<Rightarrow> 'a list" where
  "slice_last n xs = (if n = 0 then xs else drop (length xs - n) xs)"

definition slice_drop_last :: "nat \<Rightarrow> 'a list \<Rightarrow> 'a list" where
  "slice_drop_last n xs = (if n = 0 then [] else take (length xs - n) xs)"

section \<open>Data model\<close>

text \<open>
  A \<^verbatim>\<open>dns.Query\<close> is its name (\<^verbatim>\<open>query.name.name\<close>) and its type
  (\<^verbatim>\<open>query.type\<close>); the type is \<open>A\<close>, \<open>AAAA\<close> or any other record type code.
\<close>

datatype qtype = A | AAAA | OtherType nat

record dnsquery =
  q_name :: bytes
  q_type :: qtype

text \<open>
  An \<^verbatim>\<open>RRHeader\<close>: the record's name, and the payload's type and data (for an
  address record the address as text).
\<close>

record rrheader =
  rr_name :: bytes
  rr_type :: qtype
  rr_address :: string

text \<open>An answer is the triple \<^verbatim>\<open>(answers, authority, additional)\<close>.\<close>

type_synonym answer = "rrheader list \<times> rrheader list \<times> rrheader list"

text \<open>
  A failed \<^verbatim>\<open>Deferred\<close>: the two errors the resolver builds itself, whatever
  failure an upstream resolver reports (timeout, name error, ...), and the
  \<^verbatim>\<open>IndexError\<close> of \<^verbatim>\<open>parts[0]\<close> on an empty list.
\<close>

datatype failure =
    DomainError string
  | AuthoritativeDomainError string
  | UpstreamFailure string
  | IndexError

type_synonym result = "failure + answer"

text \<open>
  The \<^verbatim>\<open>timeout\<close> argument is passed on unread: \<^verbatim>\<open>None\<close>, or a sequence of
  seconds (\<^verbatim>\<open>(1, 1)\<close> for the nested resolution, \<^verbatim>\<open>[0.1]\<close> for the cluster
  resolver).
\<close>

datatype timeout = NoTimeout | Seconds "rat list"

text \<open>
  What leaves the resolver: a query sent to the cluster resolver
  (\<^verbatim>\<open>client.Resolver(servers=[(self.kubedns, 53)]).query\<close>), a query sent to the
  fallback resolver (\<^verbatim>\<open>self.fallback.query\<close>), or a native lookup
  (\<^verbatim>\<open>socket.gethostbyname_ex\<close> in a thread).
\<close>

datatype upcall =
    KubeQuery dnsquery timeout
  | FallbackQuery dnsquery timeout
  | NativeResolve bytes

text \<open>
  What lies outside the resolver. Each upstream answers from the calls made so
  far and the call's arguments, so it may answer the same question differently
  at different times. A native lookup fails with the error's message.
  \<open>stack_room\<close> is the interpreter's recursion limit, counted in nested
  resolutions of the suffix strip: the number of them that may be in progress
  at once before the next one raises \<^verbatim>\<open>RecursionError\<close>.
\<close>

record upstream =
  kube_answer :: "upcall list \<Rightarrow> dnsquery \<Rightarrow> timeout \<Rightarrow> result"
  fallback_answer :: "upcall list \<Rightarrow> dnsquery \<Rightarrow> timeout \<Rightarrow> result"
  native_answer :: "upcall list \<Rightarrow> bytes \<Rightarrow> string + string list"
  stack_room :: nat

text \<open>
  The \<^verbatim>\<open>LocalResolver\<close> object: the fields \<^verbatim>\<open>__init__\<close> sets, and two records of
  the run that the code does not keep itself: \<open>calls\<close>, the log of the upstream
  calls made so far (to state which upstream was asked what, and in which
  order), and \<open>depth\<close>, the number of nested resolutions of the suffix strip in
  progress (the part of the call stack that the recursion limit bounds).
  \<open>namespace\<close> holds the bytes of \<^verbatim>\<open>self.namespace.encode("ascii")\<close>.
\<close>

record LocalResolver =
  noloop :: bool
  local_names :: "bytes list"
  namespace :: bytes
  suffixes :: "bytes list list"
  calls :: "upcall list"
  depth :: nat

text \<open>
  \<^verbatim>\<open>__init__\<close>: tunnel mode when a nameserver is given, the local names split at
  commas (none when the text is empty), no suffix known, nothing asked yet, no
  resolution in progress.
\<close>

definition init :: "string option \<Rightarrow> bytes \<Rightarrow> string \<Rightarrow> LocalResolver" where
  "init telepresence_nameserver ns telepresence_local_names =
     \<lparr> noloop = (telepresence_nameserver \<noteq> None),
       local_names = (if telepresence_local_names \<noteq> []
                      then split_byte CHR '','' telepresence_local_names else []),
       namespace = ns,
       suffixes = [],
       calls = [],
       depth = 0 \<rparr>"

section \<open>The operations\<close>

text \<open>
  \<^verbatim>\<open>insort(target_list, new_element, key)\<close>: into an empty list the element is
  appended; otherwise it goes before the first element whose key is greater than
  its own, and at the end when there is none.
\<close>

fun insort_scan :: "('a \<Rightarrow> int) \<Rightarrow> int \<Rightarrow> 'a \<Rightarrow> 'a list \<Rightarrow> 'a list" where
  "insort_scan key new_key new_element [] = [new_element]"
| "insort_scan key new_key new_element (existing_element # rest) =
     (if key existing_element > new_key then new_element # existing_element # rest
      else existing_element # insort_scan key new_key new_element rest)"

definition insort_list :: "'a list \<Rightarrow> 'a \<Rightarrow> ('a \<Rightarrow> int) \<Rightarrow> 'a list" where
  "insort_list target_list new_element key =
     (if target_list = [] then [new_element]
      else insort_scan key (key new_element) new_element target_list)"

text \<open>\<^verbatim>\<open>_got_ips\<close>: one record per address, under the given name.\<close>

definition got_ips :: "bytes \<Rightarrow> string list \<Rightarrow> qtype \<Rightarrow> result" where
  "got_ips nm ips record_type =
     Inr (map (\<lambda>ip. \<lparr> rr_name = nm, rr_type = record_type, rr_address = ip \<rparr>) ips, [], [])"

text \<open>\<^verbatim>\<open>_got_error\<close>: a native failure becomes a \<open>DomainError\<close> with its message.\<close>

definition got_error :: "string \<Rightarrow> result" where
  "got_error msg = Inl (DomainError msg)"

text \<open>\<^verbatim>\<open>self.fallback.query(query, timeout=timeout)\<close>, logged.\<close>

definition fallback_query ::
  "upstream \<Rightarrow> LocalResolver \<Rightarrow> dnsquery \<Rightarrow> timeout \<Rightarrow> result \<times> LocalResolver" where
  "fallback_query up self query timeout =
     (fallback_answer up (calls self) query timeout,
      self\<lparr>calls := calls self @ [FallbackQuery query timeout]\<rparr>)"

text \<open>
  The first half of \<^verbatim>\<open>_no_loop_kube_query\<close>: the copy of the query whose name is
  completed to a Kubernetes service name. A name that ends in \<^verbatim>\<open>.local\<close> is left
  alone; a single label gets the namespace appended; two labels get
  \<^verbatim>\<open>.svc.cluster.local\<close>; otherwise a last label \<^verbatim>\<open>svc\<close> gets \<^verbatim>\<open>cluster.local\<close>.
\<close>

definition kube_new_query :: "bytes \<Rightarrow> dnsquery \<Rightarrow> dnsquery" where
  "kube_new_query ns query =
     (if \<not> endswith (q_name query) ''.local'' then
        (let parts = split_byte CHR ''.'' (q_name query);
             parts = (if length parts = 1 then parts @ [ns] else parts)
         in if length parts = 2
            then query\<lparr>q_name := join_bytes ''.'' parts @ ''.svc.cluster.local''\<rparr>
            else if last parts = ''svc''
            then query\<lparr>q_name := join_bytes ''.'' (parts @ [''cluster.local''])\<rparr>
            else query)
      else query)"

text \<open>\<^verbatim>\<open>fix_names\<close>: every record of the answer section gets the real name.\<close>

definition fix_names :: "bytes \<Rightarrow> answer \<Rightarrow> answer" where
  "fix_names real_name res =
     (case res of (answers, authority, additional) \<Rightarrow>
        (map (\<lambda>answer. answer\<lparr>rr_name := real_name\<rparr>) answers, authority, additional))"

text \<open>
  \<^verbatim>\<open>_no_loop_kube_query\<close>: ask the cluster resolver for the completed query with
  the timeout \<^verbatim>\<open>[0.1]\<close>; a result has its names fixed, a failure sends the
  query as it came to the fallback resolver.
\<close>

definition no_loop_kube_query ::
  "upstream \<Rightarrow> LocalResolver \<Rightarrow> dnsquery \<Rightarrow> timeout \<Rightarrow> bytes \<Rightarrow> result \<times> LocalResolver" where
  "no_loop_kube_query up self query timeout real_name =
     (let new_query = kube_new_query (namespace self) query;
          d = kube_answer up (calls self) new_query (Seconds [1 / 10]);
          self1 = self\<lparr>calls := calls self @ [KubeQuery new_query (Seconds [1 / 10])]\<rparr>
      in case d of
           Inr res \<Rightarrow> (Inr (fix_names real_name res), self1)
         | Inl err \<Rightarrow> fallback_query up self1 query timeout)"

text \<open>
  The plain-mode branch of \<^verbatim>\<open>query\<close>: the native lookup of the query's name,
  its addresses as A records under the real name, its failure as a \<open>DomainError\<close>.
\<close>

definition native_query ::
  "upstream \<Rightarrow> LocalResolver \<Rightarrow> dnsquery \<Rightarrow> bytes \<Rightarrow> result \<times> LocalResolver" where
  "native_query up self query real_name =
     ((case native_answer up (calls self) (q_name query) of
         Inr ips \<Rightarrow> got_ips real_name ips A
       | Inl msg \<Rightarrow> got_error msg),
      self\<lparr>calls := calls self @ [NativeResolve (q_name query)]\<rparr>)"

text \<open>\<^verbatim>\<open>_identify_sanity_check\<close>: \<open>None\<close> when the name is no sanity check.\<close>

definition identify_sanity_check :: "bytes \<Rightarrow> result option" where
  "identify_sanity_check real_name =
     (if startswith real_name ''hellotelepresence'' \<and> endswith real_name ''telepresence.io''
      then Some (Inl (AuthoritativeDomainError ''Sanity check''))
      else None)"

text \<open>
  \<^verbatim>\<open>_identify_suffix_probe\<close>: when the first label starts with the marker, the
  other labels are a suffix; an unknown one is inserted with the key
  \<^verbatim>\<open>-len(parts)\<close> (\<open>learn_suffix\<close> is that update of \<^verbatim>\<open>self.suffixes\<close>), and
  the answer is 127.0.0.1 under the real name.
\<close>

definition learn_suffix :: "bytes list list \<Rightarrow> bytes list \<Rightarrow> bytes list list" where
  "learn_suffix known suffix =
     (if suffix \<notin> set known
      then insort_list known suffix (\<lambda>parts. - int (length parts))
      else known)"

definition identify_suffix_probe ::
  "LocalResolver \<Rightarrow> bytes \<Rightarrow> bytes list \<Rightarrow> (result \<times> LocalResolver) option" where
  "identify_suffix_probe self real_name parts =
     (case parts of
        [] \<Rightarrow> Some (Inl IndexError, self)
      | first # suffix \<Rightarrow>
          if startswith first ''hellotelepresence'' then
            Some (got_ips real_name [''127.0.0.1''] A,
                  self\<lparr>suffixes := learn_suffix (suffixes self) suffix\<rparr>)
          else None)"

text \<open>
  \<^verbatim>\<open>_strip_search_suffix\<close>: the first known suffix that the last labels equal
  is cut off; with none the labels come back as they are.
\<close>

fun strip_scan :: "bytes list list \<Rightarrow> bytes list \<Rightarrow> bytes list" where
  "strip_scan [] parts = parts"
| "strip_scan (suffix # rest) parts =
     (if slice_last (length suffix) parts = suffix
      then slice_drop_last (length suffix) parts
      else strip_scan rest parts)"

definition strip_search_suffix :: "LocalResolver \<Rightarrow> bytes list \<Rightarrow> bytes list" where
  "strip_search_suffix self parts = strip_scan (suffixes self) parts"

text \<open>The test of \<^verbatim>\<open>query\<close> that sends an A query to the cluster resolver.\<close>

definition cluster_safe :: "bytes list \<Rightarrow> bytes \<Rightarrow> bool" where
  "cluster_safe names nm =
     (count_byte nm CHR ''.'' = 0 \<or> count_byte nm CHR ''.'' = 1
      \<or> endswith nm ''.local''
      \<or> contains nm ''.svc''
      \<or> nm \<in> set names
      \<or> list_ex (\<lambda>local_name. endswith nm (''.'' @ local_name)) names)"

text \<open>
  The first lines of \<^verbatim>\<open>query\<close>: without a \<^verbatim>\<open>real_name\<close> argument the real name
  is the query's name.
\<close>

definition the_real_name :: "dnsquery \<Rightarrow> bytes option \<Rightarrow> bytes" where
  "the_real_name q real_name_arg =
     (case real_name_arg of None \<Rightarrow> q_name q | Some r \<Rightarrow> r)"

text \<open>
  \<^verbatim>\<open>query\<close>, with \<^verbatim>\<open>_handle_search_suffix\<close> in place (it calls \<^verbatim>\<open>query\<close> back).
  In order: the sanity check on the real name; the suffix probe; the suffix
  strip, which resolves the stripped name with the timeout \<^verbatim>\<open>(1, 1)\<close> and the
  real name \<^verbatim>\<open>query.name.name\<close>, and on failure asks the fallback resolver
  for the query as it came; then the dispatch on the type. An AAAA query has
  its type set to A and goes through \<^verbatim>\<open>query\<close> again with the real name.

  The nested resolution of the suffix strip runs inside \<^verbatim>\<open>defer.maybeDeferred\<close>,
  which turns every exception into a failure. So when the stack has no room for
  one more nested resolution, the \<^verbatim>\<open>RecursionError\<close> it raises is a failure of
  that resolution like any other, and the fallback resolver is asked. \<open>depth\<close>
  counts the nested resolutions in progress and is back at its old value when
  one returns. With that bound every call returns (\<open>query_returns\<close> below); the
  value \<open>None\<close> would stand for a call that does not.
\<close>

partial_function (option) query ::
  "upstream \<Rightarrow> LocalResolver \<Rightarrow> dnsquery \<Rightarrow> timeout \<Rightarrow> bytes option
     \<Rightarrow> (result \<times> LocalResolver) option" where
  "query up self q timeout real_name_arg =
     (let real_name = the_real_name q real_name_arg;
          parts = split_byte CHR ''.'' (q_name q)
      in case identify_sanity_check real_name of
           Some res \<Rightarrow> Some (res, self)
         | None \<Rightarrow>
        (case identify_suffix_probe self real_name parts of
           Some res \<Rightarrow> Some res
         | None \<Rightarrow>
        (let stem = strip_search_suffix self parts in
         if stem \<noteq> parts then
           (if depth self < stack_room up then
              Option.bind
                (query up (self\<lparr>depth := Suc (depth self)\<rparr>)
                   (q\<lparr>q_name := join_bytes ''.'' stem\<rparr>)
                   (Seconds [1, 1]) (Some (q_name q)))
                (\<lambda>(res, self1). case res of
                    Inr ans \<Rightarrow> Some (Inr ans, self1\<lparr>depth := depth self\<rparr>)
                  | Inl f \<Rightarrow>
                      Some (fallback_query up (self1\<lparr>depth := depth self\<rparr>) q timeout))
            else Some (fallback_query up self q timeout))
         else if q_type q = A then
           (if noloop self then
              (if cluster_safe (local_names self) (q_name q)
               then Some (no_loop_kube_query up self q timeout real_name)
               else Some (fallback_query up self q timeout))
            else Some (native_query up self q real_name))
         else if q_type q = AAAA then
           query up self (q\<lparr>q_type := A\<rparr>) timeout (Some real_name)
         else Some (fallback_query up self q timeout))))"

declare query.simps [code]

text \<open>The queries of a call log that went to the fallback and to the cluster resolver.\<close>

fun fallback_queries :: "upcall list \<Rightarrow> dnsquery list" where
  "fallback_queries [] = []"
| "fallback_queries (FallbackQuery asked timeout # cs) = asked # fallback_queries cs"
| "fallback_queries (c # cs) = fallback_queries cs"

fun kube_queries :: "upcall list \<Rightarrow> dnsquery list" where
  "kube_queries [] = []"
| "kube_queries (KubeQuery asked timeout # cs) = asked # kube_queries cs"
| "kube_queries (c # cs) = kube_queries cs"

text \<open>
  The size of a call, for the recursion of \<^verbatim>\<open>query\<close>: the room left on the stack
  counts most, then whether the type is AAAA.
\<close>

definition query_size :: "upstream \<Rightarrow> LocalResolver \<Rightarrow> dnsquery \<Rightarrow> nat" where
  "query_size up self q =
     2 * (stack_room up - depth self) + (if q_type q = AAAA then 1 else 0)"

section \<open>Example collaborators\<close>

text \<open>
  An upstream whose cluster resolver always times out, whose fallback resolver
  answers every query with one record of the asked name and type, and whose
  native lookup fails; and a resolver in tunnel mode with the namespace \<open>bar\<close>
  and no local names.
\<close>

definition example_upstream :: upstream where
  "example_upstream =
     \<lparr> kube_answer = (\<lambda>log asked t. Inl (UpstreamFailure ''timeout'')),
       fallback_answer = (\<lambda>log asked t.
          Inr ([\<lparr> rr_name = q_name asked, rr_type = q_type asked,
                   rr_address = ''192.0.2.7'' \<rparr>], [], [])),
       native_answer = (\<lambda>log nm. Inl ''Name or service not known''),
       stack_room = 300 \<rparr>"

definition tunnel_resolver :: LocalResolver where
  "tunnel_resolver = init (Some ''10.0.0.53'') ''bar'' ''''"

text \<open>
  An upstream whose cluster resolver answers every query with one record of the
  asked name and type and whose fallback resolver knows no name; and an upstream
  of a network with IPv6 addresses only: the cluster resolver times out and the
  fallback resolver answers AAAA queries and no others.
\<close>

definition cluster_upstream :: upstream where
  "cluster_upstream =
     \<lparr> kube_answer = (\<lambda>log asked t.
          Inr ([\<lparr> rr_name = q_name asked, rr_type = q_type asked,
                   rr_address = ''10.1.2.3'' \<rparr>], [], [])),
       fallback_answer = (\<lambda>log asked t. Inl (UpstreamFailure ''no such name'')),
       native_answer = (\<lambda>log nm. Inl ''Name or service not known''),
       stack_room = 300 \<rparr>"

definition ipv6_upstream :: upstream where
  "ipv6_upstream =
     \<lparr> kube_answer = (\<lambda>log asked t. Inl (UpstreamFailure ''timeout'')),
       fallback_answer = (\<lambda>log asked t.
          if q_type asked = AAAA
          then Inr ([\<lparr> rr_name = q_name asked, rr_type = AAAA,
                        rr_address = ''2001:db8::1'' \<rparr>], [], [])
          else Inl (UpstreamFailure ''no such name'')),
       native_answer = (\<lambda>log nm. Inl ''Name or service not known''),
       stack_room = 300 \<rparr>"

text \<open>
  An upstream none of whose resolvers answers. Each of these upstreams has room
  on the stack for 300 nested resolutions.
\<close>

definition unreachable_upstream :: upstream where
  "unreachable_upstream =
     \<lparr> kube_answer = (\<lambda>log asked t. Inl (UpstreamFailure ''timeout'')),
       fallback_answer = (\<lambda>log asked t. Inl (UpstreamFailure ''unreachable'')),
       native_answer = (\<lambda>log nm. Inl ''Name or service not known''),
       stack_room = 300 \<rparr>"

text \<open>The definitions that evaluate a query on given collaborators.\<close>

lemmas eval_defs = tunnel_resolver_def init_def example_upstream_def
  the_real_name_def identify_sanity_check_def identify_suffix_probe_def
  strip_search_suffix_def slice_last_def slice_drop_last_def cluster_safe_def count_byte_def
  no_loop_kube_query_def kube_new_query_def fallback_query_def fix_names_def got_ips_def
  startswith_def endswith_def learn_suffix_def insort_list_def Let_def

section \<open>Facts about the byte-string functions\<close>

lemma split_byte_not_Nil: "split_byte sep s \<noteq> []"
  by (induction s) (auto split: list.splits)

lemma join_split_byte: "join_bytes [sep] (split_byte sep s) = s"
proof (induction s)
  case Nil
  then show ?case by simp
next
  case (Cons c cs)
  obtain p ps where ps: "split_byte sep cs = p # ps"
    using split_byte_not_Nil[of sep cs] by (cases "split_byte sep cs") auto
  show ?case
  proof (cases "c = sep")
    case True
    with Cons ps show ?thesis by simp
  next
    case False
    with Cons ps show ?thesis by (cases ps) auto
  qed
qed

lemma length_split_byte: "length (split_byte sep s) = Suc (count_byte s sep)"
  using split_byte_not_Nil[of sep]
  by (induction s) (auto simp: count_byte_def split: list.splits)

lemma join_bytes_snoc:
  "ps \<noteq> [] \<Longrightarrow> join_bytes sep (ps @ [x]) = join_bytes sep ps @ sep @ x"
  by (induction sep ps rule: join_bytes.induct) auto

lemma startswith_iff: "startswith s p \<longleftrightarrow> (\<exists>v. s = p @ v)"
  unfolding startswith_def
  by (metis append_eq_conv_conj append_take_drop_id)

lemma endswith_iff: "endswith s p \<longleftrightarrow> (\<exists>u. s = u @ p)"
  unfolding endswith_def
  by (metis add_diff_cancel_right' append_eq_conv_conj append_take_drop_id
      diff_le_self length_append length_drop)

lemma contains_iff: "contains s sub \<longleftrightarrow> (\<exists>u v. s = u @ sub @ v)"
proof (induction s)
  case Nil
  then show ?case by auto
next
  case (Cons c cs)
  show ?case
    by (metis append_Cons append_Nil contains.simps(2) list.sel(3) local.Cons
        startswith_iff tl_append2)
qed

section \<open>The sanity check\<close>

text \<open>
  C9. A query whose real name starts with \<open>hellotelepresence\<close> and ends with
  \<open>telepresence.io\<close> fails at once with the authoritative error
  \<open>Sanity check\<close>. The resolver comes back as it was: no suffix is learned and
  the call log is untouched, so no upstream was asked. The real name is the
  \<^verbatim>\<open>real_name\<close> argument, or the query's name without one.
\<close>

theorem sanity_check_fails:
  assumes "startswith (the_real_name q real_name_arg) ''hellotelepresence''"
    and "endswith (the_real_name q real_name_arg) ''telepresence.io''"
  shows "query up self q timeout real_name_arg =
           Some (Inl (AuthoritativeDomainError ''Sanity check''), self)"
  using assms by (subst query.simps) (simp add: identify_sanity_check_def)

theorem sanity_check_fails_witness:
  "startswith (the_real_name \<lparr>q_name = ''hellotelepresence123.telepresence.io'', q_type = A\<rparr> None)
     ''hellotelepresence''
   \<and> endswith (the_real_name \<lparr>q_name = ''hellotelepresence123.telepresence.io'', q_type = A\<rparr> None)
     ''telepresence.io''
   \<and> query example_upstream tunnel_resolver
        \<lparr>q_name = ''hellotelepresence123.telepresence.io'', q_type = A\<rparr> NoTimeout None
       = Some (Inl (AuthoritativeDomainError ''Sanity check''), tunnel_resolver)"
  using sanity_check_fails [of "\<lparr>q_name = ''hellotelepresence123.telepresence.io'', q_type = A\<rparr>"
      None example_upstream tunnel_resolver NoTimeout]
  by (simp add: startswith_def endswith_def the_real_name_def)

section \<open>The suffix probe\<close>

lemma set_insort_scan: "set (insort_scan key k x xs) = insert x (set xs)"
  by (induction xs) auto

lemma set_insort_list: "set (insort_list xs x key) = insert x (set xs)"
  by (simp add: insort_list_def set_insort_scan)

lemma set_learn_suffix: "set (learn_suffix known suffix) = insert suffix (set known)"
  by (auto simp: learn_suffix_def set_insort_list)

lemma learn_suffix_known: "suffix \<in> set known \<Longrightarrow> learn_suffix known suffix = known"
  by (simp add: learn_suffix_def)

lemma query_probe_pass:
  assumes "identify_sanity_check (the_real_name q real_name_arg) = None"
    and "identify_suffix_probe self (the_real_name q real_name_arg)
           (split_byte CHR ''.'' (q_name q)) = Some res"
  shows "query up self q timeout real_name_arg = Some res"
  using assms by (subst query.simps) (simp add: Let_def)

text \<open>
  C8. A query whose first label starts with \<open>hellotelepresence\<close> and whose real
  name is no sanity check is answered at once with the single A record
  127.0.0.1 under the real name. The other labels become a known suffix: the
  suffix list afterwards holds them and what it held before, and it is the list
  as it was when they were known already. The call log is untouched, so no
  upstream was asked.
\<close>

theorem suffix_probe_answers:
  assumes "startswith (hd (split_byte CHR ''.'' (q_name q))) ''hellotelepresence''"
    and "\<not> (startswith (the_real_name q real_name_arg) ''hellotelepresence''
             \<and> endswith (the_real_name q real_name_arg) ''telepresence.io'')"
  shows "query up self q timeout real_name_arg =
           Some (Inr ([\<lparr> rr_name = the_real_name q real_name_arg, rr_type = A,
                          rr_address = ''127.0.0.1'' \<rparr>], [], []),
                 self\<lparr>suffixes :=
                   learn_suffix (suffixes self) (tl (split_byte CHR ''.'' (q_name q)))\<rparr>)
         \<and> set (learn_suffix (suffixes self) (tl (split_byte CHR ''.'' (q_name q))))
             = insert (tl (split_byte CHR ''.'' (q_name q))) (set (suffixes self))
         \<and> (tl (split_byte CHR ''.'' (q_name q)) \<in> set (suffixes self) \<longrightarrow>
             learn_suffix (suffixes self) (tl (split_byte CHR ''.'' (q_name q))) = suffixes self)
         \<and> calls (self\<lparr>suffixes :=
                   learn_suffix (suffixes self) (tl (split_byte CHR ''.'' (q_name q)))\<rparr>) = calls self"
proof -
  obtain first suffix where parts: "split_byte CHR ''.'' (q_name q) = first # suffix"
    using split_byte_not_Nil[of "CHR ''.''" "q_name q"]
    by (cases "split_byte CHR ''.'' (q_name q)") auto
  have sane: "identify_sanity_check (the_real_name q real_name_arg) = None"
    using assms(2) by (simp add: identify_sanity_check_def)
  have probe: "identify_suffix_probe self (the_real_name q real_name_arg)
           (split_byte CHR ''.'' (q_name q)) =
           Some (Inr ([\<lparr> rr_name = the_real_name q real_name_arg, rr_type = A,
                          rr_address = ''127.0.0.1'' \<rparr>], [], []),
                 self\<lparr>suffixes := learn_suffix (suffixes self) suffix\<rparr>)"
    using assms(1) parts by (simp add: identify_suffix_probe_def got_ips_def)
  show ?thesis
    using query_probe_pass[OF sane probe] parts
    by (simp add: set_learn_suffix learn_suffix_known)
qed

theorem suffix_probe_answers_witness:
  "query example_upstream tunnel_resolver
      \<lparr>q_name = ''hellotelepresenceABC.corp.example'', q_type = A\<rparr> NoTimeout None
     = Some (Inr ([\<lparr> rr_name = ''hellotelepresenceABC.corp.example'', rr_type = A,
                      rr_address = ''127.0.0.1'' \<rparr>], [], []),
             tunnel_resolver\<lparr>suffixes := [[''corp'', ''example'']]\<rparr>)"
proof -
  let ?q = "\<lparr>q_name = ''hellotelepresenceABC.corp.example'', q_type = A\<rparr>"
  have parts: "split_byte CHR ''.'' (q_name ?q) = [''hellotelepresenceABC'', ''corp'', ''example'']"
    by simp
  have h1: "startswith (hd (split_byte CHR ''.'' (q_name ?q))) ''hellotelepresence''"
    unfolding parts by (simp add: startswith_def)
  have h2: "\<not> (startswith (the_real_name ?q None) ''hellotelepresence''
             \<and> endswith (the_real_name ?q None) ''telepresence.io'')"
    by (simp add: the_real_name_def endswith_def)
  have l: "learn_suffix (suffixes tunnel_resolver) [''corp'', ''example''] = [[''corp'', ''example'']]"
    by (simp add: tunnel_resolver_def init_def learn_suffix_def insort_list_def)
  from suffix_probe_answers [OF h1 h2, of example_upstream tunnel_resolver NoTimeout]
  have "query example_upstream tunnel_resolver ?q NoTimeout None =
           Some (Inr ([\<lparr> rr_name = the_real_name ?q None, rr_type = A,
                          rr_address = ''127.0.0.1'' \<rparr>], [], []),
                 tunnel_resolver\<lparr>suffixes :=
                   learn_suffix (suffixes tunnel_resolver) (tl (split_byte CHR ''.'' (q_name ?q)))\<rparr>)"
    by (rule conjunct1)
  then show ?thesis
    unfolding parts by (simp add: l the_real_name_def)
qed

section \<open>The dispatch on the type, and the cluster resolver's failure\<close>

lemma query_dispatch:
  assumes "identify_sanity_check (the_real_name q real_name_arg) = None"
    and "identify_suffix_probe self (the_real_name q real_name_arg)
           (split_byte CHR ''.'' (q_name q)) = None"
    and "strip_search_suffix self (split_byte CHR ''.'' (q_name q))
           = split_byte CHR ''.'' (q_name q)"
  shows "query up self q timeout real_name_arg =
           (if q_type q = A then
              (if noloop self then
                 (if cluster_safe (local_names self) (q_name q)
                  then Some (no_loop_kube_query up self q timeout (the_real_name q real_name_arg))
                  else Some (fallback_query up self q timeout))
               else Some (native_query up self q (the_real_name q real_name_arg)))
            else if q_type q = AAAA then
              query up self (q\<lparr>q_type := A\<rparr>) timeout (Some (the_real_name q real_name_arg))
            else Some (fallback_query up self q timeout))"
  using assms by (subst query.simps) (simp add: Let_def)

lemma not_sanity:
  "\<not> (startswith real_name ''hellotelepresence'' \<and> endswith real_name ''telepresence.io'')
   \<Longrightarrow> identify_sanity_check real_name = None"
  by (simp add: identify_sanity_check_def)

lemma not_probe:
  "\<not> startswith (hd (split_byte CHR ''.'' nm)) ''hellotelepresence''
   \<Longrightarrow> identify_suffix_probe self real_name (split_byte CHR ''.'' nm) = None"
  using split_byte_not_Nil[of "CHR ''.''" nm]
  by (cases "split_byte CHR ''.'' nm") (auto simp: identify_suffix_probe_def)

lemma no_loop_kube_query_failure:
  assumes "kube_answer up (calls self) (kube_new_query (namespace self) q) (Seconds [1 / 10]) = Inl err"
  shows "no_loop_kube_query up self q timeout real_name =
           (fallback_answer up
              (calls self @ [KubeQuery (kube_new_query (namespace self) q) (Seconds [1 / 10])])
              q timeout,
            self\<lparr>calls := calls self @
              [KubeQuery (kube_new_query (namespace self) q) (Seconds [1 / 10]),
               FallbackQuery q timeout]\<rparr>)"
  using assms by (simp add: no_loop_kube_query_def fallback_query_def Let_def)

lemma fallback_queries_append:
  "fallback_queries (xs @ ys) = fallback_queries xs @ fallback_queries ys"
  by (induction xs rule: fallback_queries.induct) auto

lemma kube_queries_append:
  "kube_queries (xs @ ys) = kube_queries xs @ kube_queries ys"
  by (induction xs rule: kube_queries.induct) auto

text \<open>
  C4, as the code has it. In tunnel mode, an A query with a cluster-safe name
  that reaches the dispatch on the type (it is no sanity check and no probe, and
  the suffix strip leaves its name as it is) is sent to the cluster resolver in
  its completed form with the timeout \<^verbatim>\<open>[0.1]\<close>. When that fails (a timeout
  included), the call makes exactly one more upstream call: the fallback
  resolver is asked for the query as it came, with the caller's timeout, and its
  answer or failure is the result. So the one query this call adds to those sent
  to the fallback resolver is the original one, never the completed one. This
  holds for every starting state and every real name.
\<close>

theorem kube_failure_one_fallback:
  assumes "noloop self" and "q_type q = A"
    and "cluster_safe (local_names self) (q_name q)"
    and "\<not> (startswith (the_real_name q real_name_arg) ''hellotelepresence''
             \<and> endswith (the_real_name q real_name_arg) ''telepresence.io'')"
    and "\<not> startswith (hd (split_byte CHR ''.'' (q_name q))) ''hellotelepresence''"
    and "strip_search_suffix self (split_byte CHR ''.'' (q_name q))
           = split_byte CHR ''.'' (q_name q)"
    and "kube_answer up (calls self) (kube_new_query (namespace self) q) (Seconds [1 / 10])
           = Inl err"
  shows "query up self q timeout real_name_arg =
            Some (fallback_answer up
                    (calls self @ [KubeQuery (kube_new_query (namespace self) q) (Seconds [1 / 10])])
                    q timeout,
                  self\<lparr>calls := calls self @
                    [KubeQuery (kube_new_query (namespace self) q) (Seconds [1 / 10]),
                     FallbackQuery q timeout]\<rparr>)
          \<and> fallback_queries (calls self @
                    [KubeQuery (kube_new_query (namespace self) q) (Seconds [1 / 10]),
                     FallbackQuery q timeout])
              = fallback_queries (calls self) @ [q]"
proof -
  have "query up self q timeout real_name_arg =
          Some (no_loop_kube_query up self q timeout (the_real_name q real_name_arg))"
    using assms(1-3) query_dispatch[OF not_sanity[OF assms(4)] not_probe[OF assms(5)] assms(6)]
    by simp
  then show ?thesis
    by (simp add: no_loop_kube_query_failure[OF assms(7)] fallback_queries_append)
qed

theorem kube_failure_one_fallback_witness:
  "query example_upstream tunnel_resolver \<lparr>q_name = ''foo'', q_type = A\<rparr> NoTimeout None =
       Some (Inr ([\<lparr> rr_name = ''foo'', rr_type = A, rr_address = ''192.0.2.7'' \<rparr>], [], []),
             tunnel_resolver\<lparr>calls :=
               [KubeQuery \<lparr>q_name = ''foo.bar.svc.cluster.local'', q_type = A\<rparr> (Seconds [1 / 10]),
                FallbackQuery \<lparr>q_name = ''foo'', q_type = A\<rparr> NoTimeout]\<rparr>)
   \<and> fallback_queries
         [KubeQuery \<lparr>q_name = ''foo.bar.svc.cluster.local'', q_type = A\<rparr> (Seconds [1 / 10]),
          FallbackQuery \<lparr>q_name = ''foo'', q_type = A\<rparr> NoTimeout]
       = [\<lparr>q_name = ''foo'', q_type = A\<rparr>]"
proof -
  let ?q = "\<lparr>q_name = ''foo'', q_type = A\<rparr>"
  have parts: "split_byte CHR ''.'' (q_name ?q) = [''foo'']"
    by simp
  have self: "noloop tunnel_resolver" "local_names tunnel_resolver = []"
    "suffixes tunnel_resolver = []" "calls tunnel_resolver = []" "namespace tunnel_resolver = ''bar''"
    by (simp_all add: tunnel_resolver_def init_def)
  have h3: "cluster_safe (local_names tunnel_resolver) (q_name ?q)"
    by (simp add: cluster_safe_def count_byte_def)
  have h4: "\<not> (startswith (the_real_name ?q None) ''hellotelepresence''
             \<and> endswith (the_real_name ?q None) ''telepresence.io'')"
    by (simp add: the_real_name_def startswith_def)
  have h5: "\<not> startswith (hd (split_byte CHR ''.'' (q_name ?q))) ''hellotelepresence''"
    unfolding parts by (simp add: startswith_def)
  have h6: "strip_search_suffix tunnel_resolver (split_byte CHR ''.'' (q_name ?q))
           = split_byte CHR ''.'' (q_name ?q)"
    by (simp add: strip_search_suffix_def self)
  have h7: "kube_answer example_upstream (calls tunnel_resolver)
              (kube_new_query (namespace tunnel_resolver) ?q) (Seconds [1 / 10])
           = Inl (UpstreamFailure ''timeout'')"
    by (simp add: example_upstream_def)
  have nq: "kube_new_query ''bar'' ?q = \<lparr>q_name = ''foo.bar.svc.cluster.local'', q_type = A\<rparr>"
    by (simp add: kube_new_query_def endswith_def Let_def)
  show ?thesis
    using kube_failure_one_fallback [OF self(1) _ h3 h4 h5 h6 h7, of NoTimeout]
    by (simp add: self nq example_upstream_def)
qed

text \<open>
  A query whose name the suffix strip changes has two fallbacks. With the suffix
  \<open>corp\<close> known, the A query for \<open>foo.corp\<close> (one dot, so cluster-safe) is
  stripped to \<open>foo\<close>. The cluster resolver fails, and the fallback resolver is
  asked for the stripped query \<open>foo\<close>; when that fails too, the strip asks it
  again, for \<open>foo.corp\<close>. When the first of the two answers, the one fallback
  call is the one for \<open>foo\<close>, not for the query as it came.
\<close>

theorem stripped_query_two_fallbacks_counterexample:
  "cluster_safe (local_names tunnel_resolver) ''foo.corp''
   \<and> query unreachable_upstream
         (tunnel_resolver\<lparr>suffixes := foldl learn_suffix [] [[''corp'']]\<rparr>)
         \<lparr>q_name = ''foo.corp'', q_type = A\<rparr> NoTimeout None
     = Some (Inl (UpstreamFailure ''unreachable''),
             tunnel_resolver\<lparr>suffixes := [[''corp'']],
               calls := [KubeQuery \<lparr>q_name = ''foo.bar.svc.cluster.local'', q_type = A\<rparr>
                           (Seconds [1 / 10]),
                         FallbackQuery \<lparr>q_name = ''foo'', q_type = A\<rparr> (Seconds [1, 1]),
                         FallbackQuery \<lparr>q_name = ''foo.corp'', q_type = A\<rparr> NoTimeout]\<rparr>)
   \<and> fallback_queries
         [KubeQuery \<lparr>q_name = ''foo.bar.svc.cluster.local'', q_type = A\<rparr> (Seconds [1 / 10]),
          FallbackQuery \<lparr>q_name = ''foo'', q_type = A\<rparr> (Seconds [1, 1]),
          FallbackQuery \<lparr>q_name = ''foo.corp'', q_type = A\<rparr> NoTimeout]
     = [\<lparr>q_name = ''foo'', q_type = A\<rparr>, \<lparr>q_name = ''foo.corp'', q_type = A\<rparr>]
   \<and> query example_upstream
         (tunnel_resolver\<lparr>suffixes := foldl learn_suffix [] [[''corp'']]\<rparr>)
         \<lparr>q_name = ''foo.corp'', q_type = A\<rparr> NoTimeout None
     = Some (Inr ([\<lparr> rr_name = ''foo'', rr_type = A, rr_address = ''192.0.2.7'' \<rparr>], [], []),
             tunnel_resolver\<lparr>suffixes := [[''corp'']],
               calls := [KubeQuery \<lparr>q_name = ''foo.bar.svc.cluster.local'', q_type = A\<rparr>
                           (Seconds [1 / 10]),
                         FallbackQuery \<lparr>q_name = ''foo'', q_type = A\<rparr> (Seconds [1, 1])]\<rparr>)"
  by (simp add: query.simps eval_defs unreachable_upstream_def)

section \<open>Which names go to the cluster resolver\<close>

lemma kube_queries_no_loop:
  "kube_queries (calls (snd (no_loop_kube_query up self q timeout real_name)))
     = kube_queries (calls self) @ [kube_new_query (namespace self) q]"
  by (cases "kube_answer up (calls self) (kube_new_query (namespace self) q) (Seconds [1 / 10])")
    (simp_all add: no_loop_kube_query_def fallback_query_def Let_def kube_queries_append)

lemma cluster_safe_iff:
  "cluster_safe names nm \<longleftrightarrow>
     (count_list nm CHR ''.'' \<le> 1
      \<or> (\<exists>u. nm = u @ ''.local'')
      \<or> (\<exists>u v. nm = u @ ''.svc'' @ v)
      \<or> nm \<in> set names
      \<or> (\<exists>local_name\<in>set names. \<exists>u. nm = u @ ''.'' @ local_name))"
proof -
  have c: "count_byte nm CHR ''.'' = count_list nm CHR ''.''"
    by (induction nm) (auto simp: count_byte_def)
  have "(count_byte nm CHR ''.'' = 0 \<or> count_byte nm CHR ''.'' = 1)
          \<longleftrightarrow> count_list nm CHR ''.'' \<le> 1"
    unfolding c by arith
  then show ?thesis
    unfolding cluster_safe_def endswith_iff contains_iff list_ex_iff
    by blast
qed

text \<open>
  C1, as the code has it. In tunnel mode an A query that gets past the sanity
  check, the probe and the suffix strip goes to the cluster resolver (in its
  completed form, as the one cluster query of the call) when its name passes the
  test \<open>cluster_safe\<close>, and otherwise straight to the fallback resolver, with no
  cluster query at all. The test holds exactly when the name has at most one
  dot, or ends in \<open>.local\<close>, or contains the bytes \<open>.svc\<close> anywhere, or is a
  configured local name, or ends with a dot and a configured local name. So
  \<open>google.com\<close> (one dot), \<open>kubernetes\<close> and \<open>foo.svc\<close> all go to the cluster
  resolver, whatever the local names are.
\<close>

theorem tunnel_A_routing:
  assumes "noloop self" and "q_type q = A"
    and "\<not> (startswith (the_real_name q real_name_arg) ''hellotelepresence''
             \<and> endswith (the_real_name q real_name_arg) ''telepresence.io'')"
    and "\<not> startswith (hd (split_byte CHR ''.'' (q_name q))) ''hellotelepresence''"
    and "strip_search_suffix self (split_byte CHR ''.'' (q_name q))
           = split_byte CHR ''.'' (q_name q)"
  shows "(cluster_safe (local_names self) (q_name q) \<longrightarrow>
            query up self q timeout real_name_arg
              = Some (no_loop_kube_query up self q timeout (the_real_name q real_name_arg))
            \<and> kube_queries
                (calls (snd (no_loop_kube_query up self q timeout (the_real_name q real_name_arg))))
              = kube_queries (calls self) @ [kube_new_query (namespace self) q])
       \<and> (\<not> cluster_safe (local_names self) (q_name q) \<longrightarrow>
            query up self q timeout real_name_arg
              = Some (fallback_answer up (calls self) q timeout,
                      self\<lparr>calls := calls self @ [FallbackQuery q timeout]\<rparr>)
            \<and> kube_queries (calls self @ [FallbackQuery q timeout]) = kube_queries (calls self))
       \<and> (cluster_safe (local_names self) (q_name q) \<longleftrightarrow>
            (count_list (q_name q) CHR ''.'' \<le> 1
             \<or> (\<exists>u. q_name q = u @ ''.local'')
             \<or> (\<exists>u v. q_name q = u @ ''.svc'' @ v)
             \<or> q_name q \<in> set (local_names self)
             \<or> (\<exists>local_name\<in>set (local_names self). \<exists>u. q_name q = u @ ''.'' @ local_name)))
       \<and> cluster_safe (local_names self) ''google.com''
       \<and> cluster_safe (local_names self) ''kubernetes''
       \<and> cluster_safe (local_names self) ''foo.svc''"
proof -
  note d = query_dispatch[OF not_sanity[OF assms(3)] not_probe[OF assms(4)] assms(5),
      of up timeout]
  have safe: "cluster_safe (local_names self) (q_name q) \<Longrightarrow>
      query up self q timeout real_name_arg
        = Some (no_loop_kube_query up self q timeout (the_real_name q real_name_arg))"
    using d assms(1,2) by simp
  have unsafe: "\<not> cluster_safe (local_names self) (q_name q) \<Longrightarrow>
      query up self q timeout real_name_arg
        = Some (fallback_answer up (calls self) q timeout,
                self\<lparr>calls := calls self @ [FallbackQuery q timeout]\<rparr>)"
    using d assms(1,2) by (simp add: fallback_query_def)
  have ex: "cluster_safe (local_names self) ''google.com''"
    "cluster_safe (local_names self) ''kubernetes''"
    "cluster_safe (local_names self) ''foo.svc''"
    by (simp_all add: cluster_safe_def count_byte_def)
  show ?thesis
    using safe unsafe ex cluster_safe_iff[of "local_names self" "q_name q"]
    by (simp add: kube_queries_no_loop kube_queries_append)
qed

theorem tunnel_A_routing_witness:
  "\<not> cluster_safe (local_names tunnel_resolver) ''www.google.com''
   \<and> query example_upstream tunnel_resolver \<lparr>q_name = ''www.google.com'', q_type = A\<rparr>
        NoTimeout None
      = Some (Inr ([\<lparr> rr_name = ''www.google.com'', rr_type = A,
                       rr_address = ''192.0.2.7'' \<rparr>], [], []),
              tunnel_resolver\<lparr>calls :=
                [FallbackQuery \<lparr>q_name = ''www.google.com'', q_type = A\<rparr> NoTimeout]\<rparr>)
   \<and> kube_queries [FallbackQuery \<lparr>q_name = ''www.google.com'', q_type = A\<rparr> NoTimeout] = []
   \<and> cluster_safe (local_names tunnel_resolver) ''google.com''"
proof -
  let ?q = "\<lparr>q_name = ''www.google.com'', q_type = A\<rparr>"
  have parts: "split_byte CHR ''.'' (q_name ?q) = [''www'', ''google'', ''com'']"
    by simp
  have self: "noloop tunnel_resolver" "local_names tunnel_resolver = []"
    "suffixes tunnel_resolver = []" "calls tunnel_resolver = []" "namespace tunnel_resolver = ''bar''"
    by (simp_all add: tunnel_resolver_def init_def)
  have h3: "\<not> (startswith (the_real_name ?q None) ''hellotelepresence''
             \<and> endswith (the_real_name ?q None) ''telepresence.io'')"
    by (simp add: the_real_name_def startswith_def)
  have h4: "\<not> startswith (hd (split_byte CHR ''.'' (q_name ?q))) ''hellotelepresence''"
    unfolding parts by (simp add: startswith_def)
  have h5: "strip_search_suffix tunnel_resolver (split_byte CHR ''.'' (q_name ?q))
           = split_byte CHR ''.'' (q_name ?q)"
    by (simp add: strip_search_suffix_def self)
  have unsafe: "\<not> cluster_safe [] ''www.google.com''"
    by (simp add: cluster_safe_def count_byte_def endswith_def startswith_def)
  show ?thesis
    using tunnel_A_routing [OF self(1) _ h3 h4 h5, of example_upstream NoTimeout] unsafe
    by (simp add: self example_upstream_def)
qed

text \<open>
  The name \<open>google.com\<close> has one dot, so the test holds for it and the query
  is sent to the cluster resolver as \<open>google.com.svc.cluster.local\<close> before
  the fallback resolver sees it.
\<close>

theorem google_com_counterexample:
  "cluster_safe (local_names tunnel_resolver) ''google.com''
   \<and> query example_upstream tunnel_resolver \<lparr>q_name = ''google.com'', q_type = A\<rparr>
        NoTimeout None
      = Some (Inr ([\<lparr> rr_name = ''google.com'', rr_type = A,
                       rr_address = ''192.0.2.7'' \<rparr>], [], []),
              tunnel_resolver\<lparr>calls :=
                [KubeQuery \<lparr>q_name = ''google.com.svc.cluster.local'', q_type = A\<rparr>
                   (Seconds [1 / 10]),
                 FallbackQuery \<lparr>q_name = ''google.com'', q_type = A\<rparr> NoTimeout]\<rparr>)"
proof -
  let ?q = "\<lparr>q_name = ''google.com'', q_type = A\<rparr>"
  have parts: "split_byte CHR ''.'' (q_name ?q) = [''google'', ''com'']"
    by simp
  have self: "noloop tunnel_resolver" "local_names tunnel_resolver = []"
    "suffixes tunnel_resolver = []" "calls tunnel_resolver = []" "namespace tunnel_resolver = ''bar''"
    by (simp_all add: tunnel_resolver_def init_def)
  have h3: "identify_sanity_check (the_real_name ?q None) = None"
    by (simp add: the_real_name_def startswith_def identify_sanity_check_def)
  have h4: "identify_suffix_probe tunnel_resolver (the_real_name ?q None)
              (split_byte CHR ''.'' (q_name ?q)) = None"
    unfolding parts by (simp add: startswith_def identify_suffix_probe_def)
  have h5: "strip_search_suffix tunnel_resolver (split_byte CHR ''.'' (q_name ?q))
           = split_byte CHR ''.'' (q_name ?q)"
    by (simp add: strip_search_suffix_def self)
  have safe: "cluster_safe [] ''google.com''"
    by (simp add: cluster_safe_def count_byte_def)
  have nq: "kube_new_query ''bar'' ?q = \<lparr>q_name = ''google.com.svc.cluster.local'', q_type = A\<rparr>"
    by (simp add: kube_new_query_def endswith_def Let_def)
  show ?thesis
    using query_dispatch [OF h3 h4 h5, of example_upstream NoTimeout] safe
    by (simp add: self nq example_upstream_def no_loop_kube_query_def fallback_query_def
        the_real_name_def Let_def)
qed

text \<open>
  The test for \<open>.svc\<close> looks for the four bytes anywhere in the name, not for a
  label \<open>svc\<close>: a name of four labels, none of them \<open>svc\<close>, passes it.
\<close>

lemma svc_bytes_not_label:
  "cluster_safe [] ''a.svcx.example.com''
   \<and> ''svc'' \<notin> set (split_byte CHR ''.'' ''a.svcx.example.com'')
   \<and> \<not> cluster_safe [] ''a.xsvc.example.com''"
  by (simp add: cluster_safe_def count_byte_def endswith_def startswith_def)

section \<open>The Kubernetes name completion\<close>

lemma kube_new_query_cases:
  fixes q :: dnsquery
  defines "parts \<equiv> split_byte CHR ''.'' (q_name q)"
  shows "kube_new_query ns q =
     (if endswith (q_name q) ''.local'' then q
      else if length parts = 1 then q\<lparr>q_name := q_name q @ ''.'' @ ns @ ''.svc.cluster.local''\<rparr>
      else if length parts = 2 then q\<lparr>q_name := q_name q @ ''.svc.cluster.local''\<rparr>
      else if last parts = ''svc'' then q\<lparr>q_name := q_name q @ ''.cluster.local''\<rparr>
      else q)"
proof -
  have ne: "parts \<noteq> []"
    unfolding parts_def by (rule split_byte_not_Nil)
  have j: "join_bytes ''.'' parts = q_name q"
    unfolding parts_def by (rule join_split_byte)
  have j1: "join_bytes ''.'' (parts @ [x]) = q_name q @ ''.'' @ x" for x
    using join_bytes_snoc[OF ne, of "''.''" x] j by simp
  have one: "length parts = 1 \<Longrightarrow> length (parts @ [ns]) = 2"
    by simp
  show ?thesis
    unfolding kube_new_query_def Let_def parts_def[symmetric]
    using j j1 by (auto simp del: join_bytes.simps)
qed

text \<open>
  C7, as the code has it. With the namespace \<open>bar\<close> the completion turns \<open>foo\<close>,
  \<open>foo.bar\<close> and \<open>foo.bar.svc\<close> into \<open>foo.bar.svc.cluster.local\<close> and leaves
  \<open>foo.bar.local\<close> alone. In general, a name that does not end in \<open>.local\<close>
  gets \<open>.cluster.local\<close> appended when it has at least three labels and the
  last one is \<open>svc\<close>; a name of two labels gets \<open>.svc.cluster.local\<close>, whatever
  its last label is; a single label gets the namespace and \<open>.svc.cluster.local\<close>;
  and a name that ends in \<open>.local\<close> is not changed. The type of the query is
  kept.
\<close>

theorem kube_completion:
  "q_name (kube_new_query ''bar'' \<lparr>q_name = ''foo'', q_type = t\<rparr>) = ''foo.bar.svc.cluster.local''
   \<and> q_name (kube_new_query ''bar'' \<lparr>q_name = ''foo.bar'', q_type = t\<rparr>)
       = ''foo.bar.svc.cluster.local''
   \<and> q_name (kube_new_query ''bar'' \<lparr>q_name = ''foo.bar.svc'', q_type = t\<rparr>)
       = ''foo.bar.svc.cluster.local''
   \<and> kube_new_query ''bar'' \<lparr>q_name = ''foo.bar.local'', q_type = t\<rparr>
       = \<lparr>q_name = ''foo.bar.local'', q_type = t\<rparr>
   \<and> (\<not> endswith (q_name q) ''.local''
        \<and> 3 \<le> length (split_byte CHR ''.'' (q_name q))
        \<and> last (split_byte CHR ''.'' (q_name q)) = ''svc''
       \<longrightarrow> kube_new_query ns q = q\<lparr>q_name := q_name q @ ''.cluster.local''\<rparr>)
   \<and> (\<not> endswith (q_name q) ''.local''
        \<and> length (split_byte CHR ''.'' (q_name q)) = 2
       \<longrightarrow> kube_new_query ns q = q\<lparr>q_name := q_name q @ ''.svc.cluster.local''\<rparr>)
   \<and> (\<not> endswith (q_name q) ''.local''
        \<and> length (split_byte CHR ''.'' (q_name q)) = 1
       \<longrightarrow> kube_new_query ns q = q\<lparr>q_name := q_name q @ ''.'' @ ns @ ''.svc.cluster.local''\<rparr>)
   \<and> (endswith (q_name q) ''.local'' \<longrightarrow> kube_new_query ns q = q)"
proof -
  have ex: "q_name (kube_new_query ''bar'' \<lparr>q_name = ''foo'', q_type = t\<rparr>) = ''foo.bar.svc.cluster.local''"
    "q_name (kube_new_query ''bar'' \<lparr>q_name = ''foo.bar'', q_type = t\<rparr>)
       = ''foo.bar.svc.cluster.local''"
    "q_name (kube_new_query ''bar'' \<lparr>q_name = ''foo.bar.svc'', q_type = t\<rparr>)
       = ''foo.bar.svc.cluster.local''"
    "kube_new_query ''bar'' \<lparr>q_name = ''foo.bar.local'', q_type = t\<rparr>
       = \<lparr>q_name = ''foo.bar.local'', q_type = t\<rparr>"
    by (simp_all add: kube_new_query_def endswith_def Let_def)
  show ?thesis
    using ex by (simp add: kube_new_query_cases)
qed

theorem kube_completion_witness:
  "\<not> endswith ''a.b.c.svc'' ''.local''
   \<and> 3 \<le> length (split_byte CHR ''.'' ''a.b.c.svc'')
   \<and> last (split_byte CHR ''.'' ''a.b.c.svc'') = ''svc''
   \<and> kube_new_query ''bar'' \<lparr>q_name = ''a.b.c.svc'', q_type = A\<rparr>
       = \<lparr>q_name = ''a.b.c.svc.cluster.local'', q_type = A\<rparr>
   \<and> endswith ''pod.local'' ''.local''
   \<and> kube_new_query ''bar'' \<lparr>q_name = ''pod.local'', q_type = A\<rparr>
       = \<lparr>q_name = ''pod.local'', q_type = A\<rparr>
   \<and> kube_new_query ''bar'' \<lparr>q_name = ''web'', q_type = A\<rparr>
       = \<lparr>q_name = ''web.bar.svc.cluster.local'', q_type = A\<rparr>
   \<and> kube_new_query ''bar'' \<lparr>q_name = ''web.prod'', q_type = A\<rparr>
       = \<lparr>q_name = ''web.prod.svc.cluster.local'', q_type = A\<rparr>"
proof -
  have e: "\<not> endswith ''a.b.c.svc'' ''.local''" "endswith ''pod.local'' ''.local''"
    "\<not> endswith ''web'' ''.local''" "\<not> endswith ''web.prod'' ''.local''"
    by (simp_all add: endswith_def)
  show ?thesis
    using kube_completion [of A "\<lparr>q_name = ''a.b.c.svc'', q_type = A\<rparr>" "''bar''"]
      kube_completion [of A "\<lparr>q_name = ''pod.local'', q_type = A\<rparr>" "''bar''"]
      kube_completion [of A "\<lparr>q_name = ''web'', q_type = A\<rparr>" "''bar''"]
      kube_completion [of A "\<lparr>q_name = ''web.prod'', q_type = A\<rparr>" "''bar''"]
      e
    by simp
qed

text \<open>
  The two-label rule comes first in the code: \<open>foo.svc\<close> does not end in
  \<open>.local\<close> and its last label is \<open>svc\<close>, yet it becomes
  \<open>foo.svc.svc.cluster.local\<close>, not \<open>foo.svc.cluster.local\<close>.
\<close>

theorem foo_svc_counterexample:
  "\<not> endswith ''foo.svc'' ''.local''
   \<and> last (split_byte CHR ''.'' ''foo.svc'') = ''svc''
   \<and> q_name (kube_new_query ''bar'' \<lparr>q_name = ''foo.svc'', q_type = A\<rparr>)
       = ''foo.svc.svc.cluster.local''
   \<and> q_name (kube_new_query ''bar'' \<lparr>q_name = ''foo.svc'', q_type = A\<rparr>)
       \<noteq> ''foo.svc'' @ ''.cluster.local''"
  by (simp add: kube_new_query_def endswith_def Let_def)

section \<open>The order of the suffix list\<close>

lemma sorted_insort_scan:
  "sorted_wrt (\<lambda>x y. length y \<le> length x) xs
   \<Longrightarrow> sorted_wrt (\<lambda>x y. length y \<le> length x)
         (insort_scan (\<lambda>parts. - int (length parts)) (- int (length x)) x xs)"
proof (induction xs)
  case Nil
  then show ?case by simp
next
  case (Cons e es)
  show ?case
  proof (cases "length e < length x")
    case True
    with Cons.prems show ?thesis by fastforce
  next
    case False
    with Cons show ?thesis by (auto simp: set_insort_scan)
  qed
qed

lemma filter_insort_scan:
  "sorted_wrt (\<lambda>x y. length y \<le> length x) xs
   \<Longrightarrow> filter (\<lambda>s. length s = k)
         (insort_scan (\<lambda>parts. - int (length parts)) (- int (length x)) x xs)
       = (if length x = k then filter (\<lambda>s. length s = k) xs @ [x]
          else filter (\<lambda>s. length s = k) xs)"
proof (induction xs)
  case Nil
  then show ?case by simp
next
  case (Cons e es)
  show ?case
  proof (cases "length e < length x")
    case True
    have "\<forall>y\<in>set (e # es). length y < length x"
      using True Cons.prems by fastforce
    then have "length x = k \<Longrightarrow> filter (\<lambda>s. length s = k) (e # es) = []"
      by (auto simp: filter_empty_conv)
    with True show ?thesis by auto
  next
    case False
    with Cons show ?thesis by auto
  qed
qed

lemma distinct_insort_scan:
  "x \<notin> set xs \<Longrightarrow> distinct xs \<Longrightarrow> distinct (insort_scan key k x xs)"
  by (induction xs) (auto simp: set_insort_scan)

lemma insort_list_scan: "insort_list xs x key = insort_scan key (key x) x xs"
  by (cases xs) (simp_all add: insort_list_def)

lemma sorted_learn_suffix:
  "sorted_wrt (\<lambda>x y. length y \<le> length x) known
   \<Longrightarrow> sorted_wrt (\<lambda>x y. length y \<le> length x) (learn_suffix known suffix)"
  by (simp add: learn_suffix_def insort_list_scan sorted_insort_scan)

lemma distinct_learn_suffix: "distinct known \<Longrightarrow> distinct (learn_suffix known suffix)"
  by (simp add: learn_suffix_def insort_list_scan distinct_insort_scan)

lemma filter_learn_suffix:
  "sorted_wrt (\<lambda>x y. length y \<le> length x) known
   \<Longrightarrow> filter (\<lambda>s. length s = k) (learn_suffix known suffix)
       = (if suffix \<notin> set known \<and> length suffix = k
          then filter (\<lambda>s. length s = k) known @ [suffix]
          else filter (\<lambda>s. length s = k) known)"
  using filter_insort_scan[of known k suffix]
  by (auto simp: learn_suffix_def insort_list_scan)

lemma first_arrivals_snoc:
  "rev (remdups (rev (ss @ [s])))
     = (if s \<in> set ss then rev (remdups (rev ss)) else rev (remdups (rev ss)) @ [s])"
  by simp

lemma learned_invariant:
  "sorted_wrt (\<lambda>x y. length y \<le> length x) (foldl learn_suffix [] arrivals)
   \<and> distinct (foldl learn_suffix [] arrivals)
   \<and> set (foldl learn_suffix [] arrivals) = set arrivals
   \<and> filter (\<lambda>s. length s = k) (foldl learn_suffix [] arrivals)
       = filter (\<lambda>s. length s = k) (rev (remdups (rev arrivals)))"
proof (induction arrivals rule: rev_induct)
  case Nil
  then show ?case by simp
next
  case (snoc s ss)
  then show ?case
    by (simp add: sorted_learn_suffix distinct_learn_suffix set_learn_suffix
        filter_learn_suffix del: remdups.simps rev.simps)
      (simp add: first_arrivals_snoc)
qed

text \<open>
  C5, as the code has it. Start with no suffix and let any sequence of suffixes
  arrive, each through the update of \<^verbatim>\<open>_identify_suffix_probe\<close>. The stored list
  is then sorted by label count, longest first, where suffixes of equal label
  count may stand next to each other; it has no duplicates; it holds exactly the
  suffixes that arrived; suffixes of the same label count stand in the order of
  their first arrival; and a suffix that is already there leaves the list as it
  is.
\<close>

theorem suffix_list_order:
  "sorted_wrt (\<lambda>x y. length y \<le> length x) (foldl learn_suffix [] arrivals)
   \<and> distinct (foldl learn_suffix [] arrivals)
   \<and> set (foldl learn_suffix [] arrivals) = set arrivals
   \<and> (\<forall>k. filter (\<lambda>s. length s = k) (foldl learn_suffix [] arrivals)
            = filter (\<lambda>s. length s = k) (rev (remdups (rev arrivals))))
   \<and> (\<forall>s\<in>set arrivals.
         learn_suffix (foldl learn_suffix [] arrivals) s = foldl learn_suffix [] arrivals)"
  using learned_invariant[of arrivals] by (simp add: learn_suffix_known)

theorem suffix_list_order_witness:
  "foldl learn_suffix [] [[''example''], [''corp'', ''example''], [''lan''], [''example'']]
     = [[''corp'', ''example''], [''example''], [''lan'']]
   \<and> sorted_wrt (\<lambda>x y. length y \<le> length x) [[''corp'', ''example''], [''example''], [''lan'']]
   \<and> learn_suffix [[''corp'', ''example''], [''example''], [''lan'']] [''lan'']
       = [[''corp'', ''example''], [''example''], [''lan'']]"
proof -
  have l: "foldl learn_suffix [] [[''example''], [''corp'', ''example''], [''lan''], [''example'']]
     = [[''corp'', ''example''], [''example''], [''lan'']]"
    by (simp add: learn_suffix_def insort_list_def)
  show ?thesis
    using suffix_list_order
      [of "[[''example''], [''corp'', ''example''], [''lan''], [''example'']]"]
    unfolding l by simp
qed

text \<open>
  Two suffixes of one label each are both kept, so the label counts along the
  list do not decrease strictly.
\<close>

theorem equal_length_suffixes_counterexample:
  "foldl learn_suffix [] [[''corp''], [''lan'']] = [[''corp''], [''lan'']]
   \<and> \<not> sorted_wrt (\<lambda>x y. length y < length x) (foldl learn_suffix [] [[''corp''], [''lan'']])"
  by (simp add: learn_suffix_def insort_list_def)

section \<open>The suffix strip\<close>

lemma query_strip:
  assumes "identify_sanity_check (the_real_name q real_name_arg) = None"
    and "identify_suffix_probe self (the_real_name q real_name_arg)
           (split_byte CHR ''.'' (q_name q)) = None"
    and "strip_search_suffix self (split_byte CHR ''.'' (q_name q))
           \<noteq> split_byte CHR ''.'' (q_name q)"
  shows "query up self q timeout real_name_arg =
           (if depth self < stack_room up then
              Option.bind
                (query up (self\<lparr>depth := Suc (depth self)\<rparr>)
                   (q\<lparr>q_name := join_bytes ''.''
                        (strip_search_suffix self (split_byte CHR ''.'' (q_name q)))\<rparr>)
                   (Seconds [1, 1]) (Some (q_name q)))
                (\<lambda>(res, self1). case res of
                    Inr ans \<Rightarrow> Some (Inr ans, self1\<lparr>depth := depth self\<rparr>)
                  | Inl f \<Rightarrow>
                      Some (fallback_query up (self1\<lparr>depth := depth self\<rparr>) q timeout))
            else Some (fallback_query up self q timeout))"
  using assms by (subst query.simps) (simp add: Let_def)

lemma strip_scan_whole_name:
  assumes "sorted_wrt (\<lambda>x y. length y \<le> length x) known"
    and "parts \<in> set known" and "parts \<noteq> []"
  shows "strip_scan known parts = []"
  using assms
proof (induction known)
  case Nil
  then show ?case by simp
next
  case (Cons s rest)
  have len: "length parts \<le> length s"
    using Cons.prems(1,2) by auto
  show ?case
  proof (cases "slice_last (length s) parts = s")
    case True
    have "s \<noteq> []"
      using True Cons.prems(3) by (auto simp: slice_last_def)
    then have "s = parts"
      using True len by (simp add: slice_last_def)
    then show ?thesis
      using Cons.prems(3) by (simp add: slice_last_def slice_drop_last_def)
  next
    case False
    then have "s \<noteq> parts"
      using Cons.prems(3) by (auto simp: slice_last_def)
    with Cons False show ?thesis by simp
  qed
qed

section \<open>Every query returns\<close>

text \<open>
  A nested resolution of the suffix strip takes one unit of the stack's room,
  and the second pass of an AAAA query has the type A. So every call of
  \<^verbatim>\<open>query\<close> returns, whatever the upstreams answer and whatever suffixes are
  known.
\<close>

lemma query_returns: "\<exists>r. query up self q timeout real_name_arg = Some r"
proof (induction "query_size up self q" arbitrary: self q timeout real_name_arg
    rule: less_induct)
  case less
  let ?parts = "split_byte CHR ''.'' (q_name q)"
  let ?real = "the_real_name q real_name_arg"
  show ?case
  proof (cases "identify_sanity_check ?real")
    case (Some res)
    then show ?thesis by (subst query.simps) (simp add: Let_def)
  next
    case sane: None
    show ?thesis
    proof (cases "identify_suffix_probe self ?real ?parts")
      case (Some res)
      with sane show ?thesis by (subst query.simps) (simp add: Let_def)
    next
      case noprobe: None
      show ?thesis
      proof (cases "strip_search_suffix self ?parts = ?parts")
        case False
        note s = query_strip[OF sane noprobe False, of up timeout]
        show ?thesis
        proof (cases "depth self < stack_room up")
          case room: True
          let ?nested = "self\<lparr>depth := Suc (depth self)\<rparr>"
          let ?stripped = "q\<lparr>q_name := join_bytes ''.'' (strip_search_suffix self ?parts)\<rparr>"
          have "query_size up ?nested ?stripped < query_size up self q"
            using room by (simp add: query_size_def)
          from less[OF this] obtain res self1 where
            "query up ?nested ?stripped (Seconds [1, 1]) (Some (q_name q)) = Some (res, self1)"
            by fastforce
          then show ?thesis
            unfolding s using room by (cases res) simp_all
        next
          case False
          then show ?thesis unfolding s by simp
        qed
      next
        case True
        note d = query_dispatch[OF sane noprobe True, of up timeout]
        show ?thesis
        proof (cases "q_type q = AAAA")
          case False
          then show ?thesis unfolding d by simp
        next
          case AAAA: True
          have "query_size up self (q\<lparr>q_type := A\<rparr>) < query_size up self q"
            using AAAA by (simp add: query_size_def)
          from less[OF this] AAAA show ?thesis
            unfolding d by simp
        qed
      qed
    qed
  qed
qed

text \<open>
  A probe whose name ends in a dot teaches the suffix made of one empty label.
  From then on the empty name is stripped to itself: the resolutions nest until
  the stack has no room left, the innermost one asks the fallback resolver for
  the empty name, and its answer is the result. Here the stack has room for two
  nested resolutions.
\<close>

lemma empty_label_suffix_ends_in_fallback:
  "query (example_upstream\<lparr>stack_room := 2\<rparr>) tunnel_resolver
      \<lparr>q_name = ''hellotelepresence.'', q_type = A\<rparr> NoTimeout None
     = Some (Inr ([\<lparr> rr_name = ''hellotelepresence.'', rr_type = A,
                      rr_address = ''127.0.0.1'' \<rparr>], [], []),
             tunnel_resolver\<lparr>suffixes := [[[]]]\<rparr>)
   \<and> query (example_upstream\<lparr>stack_room := 2\<rparr>) (tunnel_resolver\<lparr>suffixes := [[[]]]\<rparr>)
      \<lparr>q_name = [], q_type = A\<rparr> NoTimeout None
     = Some (Inr ([\<lparr> rr_name = [], rr_type = A, rr_address = ''192.0.2.7'' \<rparr>], [], []),
             tunnel_resolver\<lparr>suffixes := [[[]]],
               calls := [FallbackQuery \<lparr>q_name = [], q_type = A\<rparr> (Seconds [1, 1])]\<rparr>)"
  by (simp add: query.simps eval_defs)

section \<open>A name that is a known suffix\<close>

text \<open>
  C10, as the code has it. Let the suffix list be the one learned from any
  sequence of arrivals, and let the labels of the query's name be one of the
  known suffixes, the query being neither a sanity check nor a probe (those two
  passes come first). Then the strip returns the empty list of labels, which
  differs from the labels of the name, and whose join is the empty name. So the
  call resolves the empty name with the timeout \<^verbatim>\<open>(1, 1)\<close> and the query's name
  as the real name. That nested resolution returns: its answer is the answer of
  the call, and its failure sends the query as it came to the fallback resolver,
  with the caller's timeout. When the stack has no room for the nested
  resolution, that is its failure, and the fallback resolver is asked at once.
\<close>

theorem whole_name_is_suffix:
  assumes "suffixes self = foldl learn_suffix [] arrivals"
    and "split_byte CHR ''.'' (q_name q) \<in> set (suffixes self)"
    and "\<not> (startswith (the_real_name q real_name_arg) ''hellotelepresence''
             \<and> endswith (the_real_name q real_name_arg) ''telepresence.io'')"
    and "\<not> startswith (hd (split_byte CHR ''.'' (q_name q))) ''hellotelepresence''"
  shows "strip_search_suffix self (split_byte CHR ''.'' (q_name q)) = []
       \<and> strip_search_suffix self (split_byte CHR ''.'' (q_name q))
           \<noteq> split_byte CHR ''.'' (q_name q)
       \<and> join_bytes ''.'' (strip_search_suffix self (split_byte CHR ''.'' (q_name q))) = []
       \<and> (depth self < stack_room up \<longrightarrow>
            (\<exists>res self1.
               query up (self\<lparr>depth := Suc (depth self)\<rparr>) (q\<lparr>q_name := []\<rparr>)
                 (Seconds [1, 1]) (Some (q_name q)) = Some (res, self1)
               \<and> query up self q timeout real_name_arg =
                   (case res of
                      Inr ans \<Rightarrow> Some (Inr ans, self1\<lparr>depth := depth self\<rparr>)
                    | Inl f \<Rightarrow>
                        Some (fallback_answer up (calls self1) q timeout,
                              self1\<lparr>depth := depth self,
                                calls := calls self1 @ [FallbackQuery q timeout]\<rparr>))))
       \<and> (\<not> depth self < stack_room up \<longrightarrow>
            query up self q timeout real_name_arg =
              Some (fallback_answer up (calls self) q timeout,
                    self\<lparr>calls := calls self @ [FallbackQuery q timeout]\<rparr>))"
proof -
  let ?nested = "self\<lparr>depth := Suc (depth self)\<rparr>"
  have sorted: "sorted_wrt (\<lambda>x y. length y \<le> length x) (suffixes self)"
    using learned_invariant[of arrivals] assms(1) by simp
  have stem: "strip_search_suffix self (split_byte CHR ''.'' (q_name q)) = []"
    unfolding strip_search_suffix_def
    by (rule strip_scan_whole_name[OF sorted assms(2) split_byte_not_Nil])
  have changed: "strip_search_suffix self (split_byte CHR ''.'' (q_name q))
           \<noteq> split_byte CHR ''.'' (q_name q)"
    unfolding stem using split_byte_not_Nil[of "CHR ''.''" "q_name q"] by simp
  note s = query_strip[OF not_sanity[OF assms(3)] not_probe[OF assms(4)] changed,
      of up timeout, unfolded stem]
  obtain res self1 where nested:
    "query up ?nested (q\<lparr>q_name := []\<rparr>) (Seconds [1, 1]) (Some (q_name q)) = Some (res, self1)"
    using query_returns[of up ?nested "q\<lparr>q_name := []\<rparr>" "Seconds [1, 1]" "Some (q_name q)"]
    by fastforce
  have room: "query up self q timeout real_name_arg =
      (case res of
         Inr ans \<Rightarrow> Some (Inr ans, self1\<lparr>depth := depth self\<rparr>)
       | Inl f \<Rightarrow>
           Some (fallback_answer up (calls self1) q timeout,
                 self1\<lparr>depth := depth self,
                   calls := calls self1 @ [FallbackQuery q timeout]\<rparr>))"
    if "depth self < stack_room up"
    using s that nested by (cases res) (simp_all add: fallback_query_def)
  have no_room: "query up self q timeout real_name_arg =
      Some (fallback_answer up (calls self) q timeout,
            self\<lparr>calls := calls self @ [FallbackQuery q timeout]\<rparr>)"
    if "\<not> depth self < stack_room up"
    using s that by (simp add: fallback_query_def)
  show ?thesis
    using stem changed nested room no_room by auto
qed

theorem whole_name_is_suffix_witness:
  "query example_upstream (tunnel_resolver\<lparr>suffixes := [[''corp'', ''example'']]\<rparr>)
      \<lparr>q_name = ''corp.example'', q_type = A\<rparr> NoTimeout None
   = Some (Inr ([\<lparr> rr_name = [], rr_type = A, rr_address = ''192.0.2.7'' \<rparr>], [], []),
       tunnel_resolver\<lparr>suffixes := [[''corp'', ''example'']],
         calls := [KubeQuery \<lparr>q_name = ''.bar.svc.cluster.local'', q_type = A\<rparr> (Seconds [1 / 10]),
                   FallbackQuery \<lparr>q_name = [], q_type = A\<rparr> (Seconds [1, 1])]\<rparr>)"
proof -
  let ?self = "tunnel_resolver\<lparr>suffixes := [[''corp'', ''example'']]\<rparr>"
  let ?q = "\<lparr>q_name = ''corp.example'', q_type = A\<rparr>"
  have parts: "split_byte CHR ''.'' (q_name ?q) = [''corp'', ''example'']"
    by simp
  have h1: "suffixes ?self = foldl learn_suffix [] [[''corp'', ''example'']]"
    by (simp add: learn_suffix_def insort_list_def)
  have h2: "split_byte CHR ''.'' (q_name ?q) \<in> set (suffixes ?self)"
    unfolding parts by simp
  have h3: "\<not> (startswith (the_real_name ?q None) ''hellotelepresence''
             \<and> endswith (the_real_name ?q None) ''telepresence.io'')"
    by (simp add: the_real_name_def startswith_def)
  have h4: "\<not> startswith (hd (split_byte CHR ''.'' (q_name ?q))) ''hellotelepresence''"
    unfolding parts by (simp add: startswith_def)
  have room: "depth ?self < stack_room example_upstream"
    by (simp add: eval_defs)
  have inner: "query example_upstream (?self\<lparr>depth := Suc (depth ?self)\<rparr>) (?q\<lparr>q_name := []\<rparr>)
                 (Seconds [1, 1]) (Some (q_name ?q))
     = Some (Inr ([\<lparr> rr_name = [], rr_type = A, rr_address = ''192.0.2.7'' \<rparr>], [], []),
       tunnel_resolver\<lparr>suffixes := [[''corp'', ''example'']],
         calls := [KubeQuery \<lparr>q_name = ''.bar.svc.cluster.local'', q_type = A\<rparr> (Seconds [1 / 10]),
                   FallbackQuery \<lparr>q_name = [], q_type = A\<rparr> (Seconds [1, 1])],
         depth := Suc 0\<rparr>)"
    by (simp add: query.simps eval_defs)
  from whole_name_is_suffix [OF h1 h2 h3 h4, of example_upstream NoTimeout] room
  obtain res self1 where
    nested: "query example_upstream (?self\<lparr>depth := Suc (depth ?self)\<rparr>) (?q\<lparr>q_name := []\<rparr>)
                 (Seconds [1, 1]) (Some (q_name ?q)) = Some (res, self1)"
    and outer: "query example_upstream ?self ?q NoTimeout None =
        (case res of
           Inr ans \<Rightarrow> Some (Inr ans, self1\<lparr>depth := depth ?self\<rparr>)
         | Inl f \<Rightarrow>
             Some (fallback_answer example_upstream (calls self1) ?q NoTimeout,
                   self1\<lparr>depth := depth ?self,
                     calls := calls self1 @ [FallbackQuery ?q NoTimeout]\<rparr>))"
    by blast
  from nested inner have
    "res = Inr ([\<lparr> rr_name = [], rr_type = A, rr_address = ''192.0.2.7'' \<rparr>], [], [])"
    "self1 = tunnel_resolver\<lparr>suffixes := [[''corp'', ''example'']],
         calls := [KubeQuery \<lparr>q_name = ''.bar.svc.cluster.local'', q_type = A\<rparr> (Seconds [1 / 10]),
                   FallbackQuery \<lparr>q_name = [], q_type = A\<rparr> (Seconds [1, 1])],
         depth := Suc 0\<rparr>"
    by simp_all
  with outer show ?thesis
    by (simp add: tunnel_resolver_def init_def)
qed

text \<open>
  The probe pass comes before the strip. Let the suffix \<open>hellotelepresenceX\<close>
  be known, and let a query for that very name arrive. Its labels are a known
  suffix and the strip would return the empty list, yet the query is answered
  as a probe, with 127.0.0.1 and no upstream call; the resolution of the empty
  name, which is not made, would have asked both upstreams.
\<close>

theorem probe_named_like_suffix_counterexample:
  "split_byte CHR ''.'' ''hellotelepresenceX''
     \<in> set (foldl learn_suffix [] [[''hellotelepresenceX'']])
   \<and> strip_search_suffix
         (tunnel_resolver\<lparr>suffixes := foldl learn_suffix [] [[''hellotelepresenceX'']]\<rparr>)
         (split_byte CHR ''.'' ''hellotelepresenceX'') = []
   \<and> query example_upstream
         (tunnel_resolver\<lparr>suffixes := foldl learn_suffix [] [[''hellotelepresenceX'']]\<rparr>)
         \<lparr>q_name = ''hellotelepresenceX'', q_type = A\<rparr> NoTimeout None
     = Some (Inr ([\<lparr> rr_name = ''hellotelepresenceX'', rr_type = A,
                      rr_address = ''127.0.0.1'' \<rparr>], [], []),
             tunnel_resolver\<lparr>suffixes := [[''hellotelepresenceX''], []]\<rparr>)
   \<and> query example_upstream
         (tunnel_resolver\<lparr>suffixes := foldl learn_suffix [] [[''hellotelepresenceX'']],
            depth := Suc 0\<rparr>)
         \<lparr>q_name = [], q_type = A\<rparr> (Seconds [1, 1]) (Some ''hellotelepresenceX'')
     = Some (Inr ([\<lparr> rr_name = [], rr_type = A, rr_address = ''192.0.2.7'' \<rparr>], [], []),
             tunnel_resolver\<lparr>suffixes := [[''hellotelepresenceX'']],
               calls := [KubeQuery \<lparr>q_name = ''.bar.svc.cluster.local'', q_type = A\<rparr>
                           (Seconds [1 / 10]),
                         FallbackQuery \<lparr>q_name = [], q_type = A\<rparr> (Seconds [1, 1])],
               depth := Suc 0\<rparr>)"
  by (simp add: query.simps eval_defs)

section \<open>Three inputs on which the real name or the type is lost\<close>

lemma fix_names_real_name:
  "\<forall>answer\<in>set (fst (fix_names real_name res)). rr_name answer = real_name"
  by (cases res) (auto simp: fix_names_def)

lemma kube_answer_has_real_name:
  assumes "kube_answer up (calls self) (kube_new_query (namespace self) q) (Seconds [1 / 10])
             = Inr res"
  shows "\<exists>ans self1. no_loop_kube_query up self q timeout real_name = (Inr ans, self1)
           \<and> (\<forall>answer\<in>set (fst ans). rr_name answer = real_name)"
  using assms fix_names_real_name[of real_name res]
  by (simp add: no_loop_kube_query_def Let_def)

text \<open>
  C2, at a failing input. An answer of the cluster resolver is renamed to the
  real name (\<open>kube_answer_has_real_name\<close>), an answer of the fallback resolver is
  not. With the suffix \<open>corp.example\<close> known, the A query for
  \<open>service1.corp.example\<close> is stripped to \<open>service1\<close>; the cluster resolver times
  out, the fallback resolver is asked for \<open>service1\<close> and answers under that
  name, and this answer is the result: its record is named \<open>service1\<close>, while the
  real name is \<open>service1.corp.example\<close>.
\<close>

theorem fallback_answer_keeps_stripped_name:
  "query example_upstream
      (tunnel_resolver\<lparr>suffixes := foldl learn_suffix [] [[''corp'', ''example'']]\<rparr>)
      \<lparr>q_name = ''service1.corp.example'', q_type = A\<rparr> NoTimeout None
   = Some (Inr ([\<lparr> rr_name = ''service1'', rr_type = A, rr_address = ''192.0.2.7'' \<rparr>], [], []),
       tunnel_resolver\<lparr>suffixes := [[''corp'', ''example'']],
         calls := [KubeQuery \<lparr>q_name = ''service1.bar.svc.cluster.local'', q_type = A\<rparr>
                     (Seconds [1 / 10]),
                   FallbackQuery \<lparr>q_name = ''service1'', q_type = A\<rparr> (Seconds [1, 1])]\<rparr>)
   \<and> the_real_name \<lparr>q_name = ''service1.corp.example'', q_type = A\<rparr> None
       = ''service1.corp.example''"
  by (simp add: query.simps eval_defs)

text \<open>
  C3, at a failing input. The suffix strip passes the name of the query it was
  given as the real name of the nested resolution (\<open>query_strip\<close>), not the real
  name of its own call. With the suffixes \<open>corp.example\<close> and \<open>example\<close> known, the
  A query for \<open>svc1.example.corp.example\<close> is stripped to \<open>svc1.example\<close>, and in
  the nested call to \<open>svc1\<close> with the real name \<open>svc1.example\<close>. The cluster
  resolver answers, and the record comes back under \<open>svc1.example\<close>, while the
  real name of the query is \<open>svc1.example.corp.example\<close>.
\<close>

theorem nested_strip_loses_real_name:
  "query cluster_upstream
      (tunnel_resolver\<lparr>suffixes := foldl learn_suffix [] [[''example''], [''corp'', ''example'']]\<rparr>)
      \<lparr>q_name = ''svc1.example.corp.example'', q_type = A\<rparr> NoTimeout None
   = Some (Inr ([\<lparr> rr_name = ''svc1.example'', rr_type = A, rr_address = ''10.1.2.3'' \<rparr>], [], []),
       tunnel_resolver\<lparr>suffixes := [[''corp'', ''example''], [''example'']],
         calls := [KubeQuery \<lparr>q_name = ''svc1.bar.svc.cluster.local'', q_type = A\<rparr>
                     (Seconds [1 / 10])]\<rparr>)
   \<and> the_real_name \<lparr>q_name = ''svc1.example.corp.example'', q_type = A\<rparr> None
       = ''svc1.example.corp.example''"
  by (simp add: query.simps eval_defs cluster_upstream_def)

lemma query_real_name_arg:
  "query up self q timeout (Some (the_real_name q real_name_arg))
     = query up self q timeout real_name_arg"
  by (subst query.simps, subst (2) query.simps) (simp add: the_real_name_def)

lemma aaaa_at_dispatch:
  assumes "q_type q = AAAA"
    and "identify_sanity_check (the_real_name q real_name_arg) = None"
    and "identify_suffix_probe self (the_real_name q real_name_arg)
           (split_byte CHR ''.'' (q_name q)) = None"
    and "strip_search_suffix self (split_byte CHR ''.'' (q_name q))
           = split_byte CHR ''.'' (q_name q)"
  shows "query up self q timeout real_name_arg
           = query up self (q\<lparr>q_type := A\<rparr>) timeout real_name_arg"
proof -
  have r: "the_real_name q real_name_arg = the_real_name (q\<lparr>q_type := A\<rparr>) real_name_arg"
    by (cases real_name_arg) (simp_all add: the_real_name_def)
  have "query up self q timeout real_name_arg
          = query up self (q\<lparr>q_type := A\<rparr>) timeout (Some (the_real_name q real_name_arg))"
    using query_dispatch[OF assms(2-4), of up timeout] assms(1) by simp
  then show ?thesis
    unfolding r by (simp only: query_real_name_arg)
qed

text \<open>
  C6, at a failing input. An AAAA query that reaches the dispatch is resolved as
  the A query of the same name (\<open>aaaa_at_dispatch\<close>). An AAAA query whose name is
  stripped is not: when the nested resolution fails, the query goes to the
  fallback resolver as it came, with the type AAAA. With the suffix
  \<open>corp.example\<close> known and a fallback resolver that has AAAA records only, the
  AAAA query for \<open>service1.corp.example\<close> is answered with an AAAA record, while
  the A query for the same name fails.
\<close>

theorem aaaa_after_strip_yields_aaaa:
  "query ipv6_upstream
      (tunnel_resolver\<lparr>suffixes := foldl learn_suffix [] [[''corp'', ''example'']]\<rparr>)
      \<lparr>q_name = ''service1.corp.example'', q_type = AAAA\<rparr> NoTimeout None
   = Some (Inr ([\<lparr> rr_name = ''service1.corp.example'', rr_type = AAAA,
                    rr_address = ''2001:db8::1'' \<rparr>], [], []),
       tunnel_resolver\<lparr>suffixes := [[''corp'', ''example'']],
         calls := [KubeQuery \<lparr>q_name = ''service1.bar.svc.cluster.local'', q_type = A\<rparr>
                     (Seconds [1 / 10]),
                   FallbackQuery \<lparr>q_name = ''service1'', q_type = A\<rparr> (Seconds [1, 1]),
                   FallbackQuery \<lparr>q_name = ''service1.corp.example'', q_type = AAAA\<rparr>
                     NoTimeout]\<rparr>)
   \<and> query ipv6_upstream
      (tunnel_resolver\<lparr>suffixes := foldl learn_suffix [] [[''corp'', ''example'']]\<rparr>)
      \<lparr>q_name = ''service1.corp.example'', q_type = A\<rparr> NoTimeout None
   = Some (Inl (UpstreamFailure ''no such name''),
       tunnel_resolver\<lparr>suffixes := [[''corp'', ''example'']],
         calls := [KubeQuery \<lparr>q_name = ''service1.bar.svc.cluster.local'', q_type = A\<rparr>
                     (Seconds [1 / 10]),
                   FallbackQuery \<lparr>q_name = ''service1'', q_type = A\<rparr> (Seconds [1, 1]),
                   FallbackQuery \<lparr>q_name = ''service1.corp.example'', q_type = A\<rparr>
                     NoTimeout]\<rparr>)"
  by (simp add: query.simps eval_defs ipv6_upstream_def)

end
